theory Spec2Isabelle
  imports Complex_Main
begin

section \<open>PolicyGenerator-AI: the policy generator module\<close>

text \<open>
  A shallow embedding of \<^verbatim>\<open>src/policygenerator_ai/generator.py\<close>.
  Python strings are \<open>string\<close>, the dictionaries with fixed keys that the module builds
  are records, a raised exception is the \<open>Inl\<close> of a sum, and everything outside the
  module (the completion service, the file system behind the document writers) is a
  world of an arbitrary type \<open>'w\<close> that each external call reads and updates. The
  structlog logger is the list of the events logged so far.
\<close>

subsection \<open>Data model\<close>

text \<open>The dataclass \<^verbatim>\<open>PolicyConfig\<close>; its field \<^verbatim>\<open>size\<close> is \<open>size_cfg\<close> here.\<close>

record PolicyConfig =
  framework :: string
  organization_name :: string
  industry :: string
  size_cfg :: string
  language :: string

text \<open>The dictionary \<^verbatim>\<open>{"title": ..., "content": ...}\<close> appended for each section.\<close>

record PolicySection =
  title :: string
  content :: string

text \<open>The dictionary under the key \<^verbatim>\<open>"metadata"\<close>.\<close>

record PolicyMetadata =
  organization :: string
  metadata_industry :: string
  generated_by :: string

text \<open>The dictionary returned by \<^verbatim>\<open>generate_policy\<close>.\<close>

record PolicyRecord =
  policy_title :: string
  policy_framework :: string
  sections :: "PolicySection list"
  metadata :: PolicyMetadata

subsection \<open>Exceptions, the logger and the outside world\<close>

text \<open>
  An instance of Python's \<^verbatim>\<open>Exception\<close>, carrying what \<^verbatim>\<open>str(e)\<close> gives. These
  are the errors that \<^verbatim>\<open>except Exception\<close> catches, and the errors a client library
  raises (transport, quota, malformed response). An interrupt of the interpreter itself
  (\<^verbatim>\<open>KeyboardInterrupt\<close>, \<^verbatim>\<open>SystemExit\<close>) is not an \<^verbatim>\<open>Exception\<close> and is not modelled.
\<close>

datatype py_exception = Exception string

datatype log_level = Info | Error

text \<open>One structlog call: level, event text and keyword arguments.\<close>

datatype log_event = LogEvent log_level string "(string \<times> string) list"

record 'w state =
  world :: 'w
  log_events :: "log_event list"

definition logger_info :: "string \<Rightarrow> (string \<times> string) list \<Rightarrow> 'w state \<Rightarrow> 'w state" where
  "logger_info event kw s = s\<lparr>log_events := log_events s @ [LogEvent Info event kw]\<rparr>"

definition logger_error :: "string \<Rightarrow> (string \<times> string) list \<Rightarrow> 'w state \<Rightarrow> 'w state" where
  "logger_error event kw s = s\<lparr>log_events := log_events s @ [LogEvent Error event kw]\<rparr>"

text \<open>
  The keyword arguments of \<^verbatim>\<open>openai.ChatCompletion.create\<close>; each message is the
  pair of its role and its content.
\<close>

record chat_request =
  model :: string
  messages :: "(string \<times> string) list"
  temperature :: real
  max_tokens :: nat

text \<open>
  The response object, as far as the module reads it: \<open>choices\<close> lists the
  \<^verbatim>\<open>message.content\<close> of each choice.
\<close>

record chat_response =
  choices :: "string list"

text \<open>
  The text-generation collaborator \<^verbatim>\<open>openai.ChatCompletion.create\<close>: from the world and
  a request it raises or returns a response, and leaves a new world. Nothing is assumed
  about it: it may fail on any call and answer the same request differently each time.
\<close>

type_synonym 'w collaborator = "'w \<Rightarrow> chat_request \<Rightarrow> (py_exception + chat_response) \<times> 'w"

subsection \<open>The outline table\<close>

text \<open>The dictionary literal \<^verbatim>\<open>framework_templates\<close> of \<^verbatim>\<open>_generate_policy_sections\<close>.\<close>

definition framework_templates :: "string \<rightharpoonup> string list" where
  "framework_templates = map_of
    [(''ISO27001'',
       [''Information Security Policy'',
        ''Organization of Information Security'',
        ''Human Resource Security'',
        ''Asset Management'',
        ''Access Control'',
        ''Cryptography'',
        ''Physical and Environmental Security'',
        ''Operations Security'',
        ''Communications Security'',
        ''System Acquisition, Development and Maintenance'',
        ''Supplier Relationships'',
        ''Information Security Incident Management'',
        ''Business Continuity Management'',
        ''Compliance'']),
     (''RGPD'',
       [''Data Protection Principles'',
        ''Lawful Basis for Processing'',
        ''Data Subject Rights'',
        ''Data Security Measures'',
        ''Data Breach Notification'',
        ''Data Protection Impact Assessment'',
        ''Data Protection Officer'',
        ''International Data Transfers'']),
     (''NIS2'',
       [''Risk Management'',
        ''Corporate Governance'',
        ''Business Continuity'',
        ''Supply Chain Security'',
        ''Security in Network and Information Systems'',
        ''Incident Handling'',
        ''Security Testing and Auditing''])]"

text \<open>\<^verbatim>\<open>section_names = framework_templates.get(config.framework, [])\<close>\<close>

definition section_names :: "PolicyConfig \<Rightarrow> string list" where
  "section_names config =
     (case framework_templates (framework config) of None \<Rightarrow> [] | Some names \<Rightarrow> names)"

subsection \<open>Generating one section\<close>

text \<open>The f-string \<^verbatim>\<open>prompt\<close> of \<^verbatim>\<open>_generate_section_content\<close>.\<close>

definition prompt :: "string \<Rightarrow> PolicyConfig \<Rightarrow> string" where
  "prompt section_name config =
     ''Generate a comprehensive '' @ section_name @ '' section for a '' @ framework config
       @ '' security policy.\<newline>\<newline>Organization: '' @ organization_name config
       @ ''\<newline>Industry: '' @ industry config
       @ ''\<newline>Size: '' @ size_cfg config
       @ ''\<newline>\<newline>Provide detailed, professional content with:\<newline>- Clear objectives\<newline>- Specific requirements\<newline>- Implementation guidelines\<newline>- Compliance requirements\<newline>\<newline>Format in professional policy language.''"

definition completion_request :: "string \<Rightarrow> chat_request" where
  "completion_request p =
     \<lparr>model = ''gpt-4'',
      messages = [(''system'', ''You are a cybersecurity policy expert.''), (''user'', p)],
      temperature = 0.3,
      max_tokens = 1000\<rparr>"

text \<open>
  The body of the \<^verbatim>\<open>try\<close>: the call, then \<^verbatim>\<open>response.choices[0].message.content\<close>,
  which raises IndexError on a response without choices.
\<close>

definition request_content ::
  "'w collaborator \<Rightarrow> string \<Rightarrow> 'w \<Rightarrow> (py_exception + string) \<times> 'w" where
  "request_content create p w =
     (case create w (completion_request p) of
        (Inl e, w') \<Rightarrow> (Inl e, w')
      | (Inr response, w') \<Rightarrow>
          (case choices response of
             [] \<Rightarrow> (Inl (Exception ''list index out of range''), w')
           | c # _ \<Rightarrow> (Inr c, w')))"

text \<open>
  \<^verbatim>\<open>_generate_section_content\<close>: the \<^verbatim>\<open>except Exception\<close> handler logs the error
  and returns the placeholder.
\<close>

definition generate_section_content ::
  "'w collaborator \<Rightarrow> string \<Rightarrow> PolicyConfig \<Rightarrow> 'w state \<Rightarrow> (py_exception + string) \<times> 'w state" where
  "generate_section_content create section_name config s =
     (case request_content create (prompt section_name config) (world s) of
        (Inr text, w') \<Rightarrow> (Inr text, s\<lparr>world := w'\<rparr>)
      | (Inl (Exception msg), w') \<Rightarrow>
          (Inr (''[Section content for '' @ section_name @ '']''),
           logger_error ''LLM generation failed'' [(''error'', msg)] (s\<lparr>world := w'\<rparr>)))"

subsection \<open>Assembling the policy\<close>

text \<open>
  The \<^verbatim>\<open>for\<close> loop of \<^verbatim>\<open>_generate_policy_sections\<close>, with the list \<^verbatim>\<open>sections\<close>
  built so far as an accumulator. An exception of the body would leave the loop.
\<close>

fun sections_loop ::
  "'w collaborator \<Rightarrow> PolicyConfig \<Rightarrow> string list \<Rightarrow> PolicySection list \<Rightarrow> 'w state
     \<Rightarrow> (py_exception + PolicySection list) \<times> 'w state" where
  "sections_loop create config [] acc s = (Inr acc, s)"
| "sections_loop create config (section_name # rest) acc s =
     (case generate_section_content create section_name config s of
        (Inl e, s') \<Rightarrow> (Inl e, s')
      | (Inr text, s') \<Rightarrow>
          sections_loop create config rest (acc @ [\<lparr>title = section_name, content = text\<rparr>]) s')"

definition generate_policy_sections ::
  "'w collaborator \<Rightarrow> PolicyConfig \<Rightarrow> 'w state \<Rightarrow> (py_exception + PolicySection list) \<times> 'w state" where
  "generate_policy_sections create config s =
     sections_loop create config (take 5 (section_names config)) [] s"

definition generate_policy ::
  "'w collaborator \<Rightarrow> PolicyConfig \<Rightarrow> 'w state \<Rightarrow> (py_exception + PolicyRecord) \<times> 'w state" where
  "generate_policy create config s =
     (case generate_policy_sections create config
             (logger_info ''Generating policy'' [(''framework'', framework config)] s) of
        (Inl e, s') \<Rightarrow> (Inl e, s')
      | (Inr secs, s') \<Rightarrow>
          (Inr \<lparr>policy_title = framework config @ '' Security Policy - '' @ organization_name config,
                policy_framework = framework config,
                sections = secs,
                metadata = \<lparr>organization = organization_name config,
                            metadata_industry = industry config,
                            generated_by = ''Ayi NEDJIMI - ayinedjimi-consultants.fr''\<rparr>\<rparr>,
           s'))"

subsection \<open>The document libraries\<close>

text \<open>
  python-docx and reportlab are not part of the module. A call into either one raises or
  is accepted, and the library decides which: python-docx refuses a text with a control
  character, reportlab reads the text of a paragraph as markup and refuses an unclosed
  tag. So a library is a parameter: what it answers to a call, given the calls it has
  accepted before, where \<open>None\<close> accepts the call and \<open>Some e\<close> raises \<open>e\<close>.
\<close>

type_synonym 'i library = "'i list \<Rightarrow> 'i \<Rightarrow> py_exception option"

text \<open>One call: it raises, or it is added to the calls accepted so far.\<close>

definition issue :: "'i library \<Rightarrow> 'i list \<Rightarrow> 'i \<Rightarrow> py_exception + 'i list" where
  "issue lib accepted call =
     (case lib accepted call of Some e \<Rightarrow> Inl e | None \<Rightarrow> Inr (accepted @ [call]))"

text \<open>Statement after statement: an exception of the first skips the rest.\<close>

definition and_then :: "py_exception + 'a \<Rightarrow> ('a \<Rightarrow> py_exception + 'b) \<Rightarrow> py_exception + 'b" where
  "and_then r f = (case r of Inl e \<Rightarrow> Inl e | Inr x \<Rightarrow> f x)"

subsection \<open>The Word exporter\<close>

text \<open>
  A python-docx \<^verbatim>\<open>Document\<close> is the sequence of the calls it has accepted.
\<close>

datatype docx_instruction = AddHeading string nat | AddParagraph string | AddPageBreak

definition Document :: "docx_instruction list" where
  "Document = []"

definition add_heading ::
  "docx_instruction library \<Rightarrow> docx_instruction list \<Rightarrow> string \<Rightarrow> nat
     \<Rightarrow> py_exception + docx_instruction list" where
  "add_heading lib doc text level = issue lib doc (AddHeading text level)"

definition add_paragraph ::
  "docx_instruction library \<Rightarrow> docx_instruction list \<Rightarrow> string
     \<Rightarrow> py_exception + docx_instruction list" where
  "add_paragraph lib doc text = issue lib doc (AddParagraph text)"

definition add_page_break ::
  "docx_instruction library \<Rightarrow> docx_instruction list \<Rightarrow> py_exception + docx_instruction list" where
  "add_page_break lib doc = issue lib doc AddPageBreak"

text \<open>The loop \<^verbatim>\<open>for section in policy["sections"]\<close> of \<^verbatim>\<open>export_to_docx\<close>.\<close>

fun docx_sections_loop ::
  "docx_instruction library \<Rightarrow> PolicySection list \<Rightarrow> docx_instruction list
     \<Rightarrow> py_exception + docx_instruction list" where
  "docx_sections_loop lib [] doc = Inr doc"
| "docx_sections_loop lib (sec # rest) doc =
     and_then (add_heading lib doc (title sec) 1) (\<lambda>doc.
     and_then (add_paragraph lib doc (content sec)) (\<lambda>doc.
     and_then (add_page_break lib doc) (\<lambda>doc.
     docx_sections_loop lib rest doc)))"

text \<open>
  The statements of \<^verbatim>\<open>export_to_docx\<close> before \<^verbatim>\<open>doc.save\<close>: the document they
  build, or the exception of the first call that the library refuses.
\<close>

definition docx_document ::
  "docx_instruction library \<Rightarrow> PolicyRecord \<Rightarrow> py_exception + docx_instruction list" where
  "docx_document lib policy =
     and_then (add_heading lib Document (policy_title policy) 0) (\<lambda>doc.
     and_then (add_paragraph lib doc (''Organization: '' @ organization (metadata policy))) (\<lambda>doc.
     and_then (add_paragraph lib doc (''Framework: '' @ policy_framework policy)) (\<lambda>doc.
     and_then (add_paragraph lib doc (''Generated by: '' @ generated_by (metadata policy))) (\<lambda>doc.
     and_then (add_page_break lib doc) (\<lambda>doc.
     docx_sections_loop lib (sections policy) doc)))))"

text \<open>
  \<^verbatim>\<open>doc.save(output_path)\<close>: the document writer, which may raise. The exporter catches
  nothing: an exception of a library call or of the writer ends it, and it logs only
  after a save that returned.
\<close>

type_synonym 'w docx_writer =
  "'w \<Rightarrow> docx_instruction list \<Rightarrow> string \<Rightarrow> (py_exception + unit) \<times> 'w"

definition export_to_docx ::
  "docx_instruction library \<Rightarrow> 'w docx_writer \<Rightarrow> PolicyRecord \<Rightarrow> string \<Rightarrow> 'w state
     \<Rightarrow> (py_exception + unit) \<times> 'w state" where
  "export_to_docx lib save policy output_path s =
     (case docx_document lib policy of
        Inl e \<Rightarrow> (Inl e, s)
      | Inr doc \<Rightarrow>
          (case save (world s) doc output_path of
             (Inl e, w') \<Rightarrow> (Inl e, s\<lparr>world := w'\<rparr>)
           | (Inr _, w') \<Rightarrow>
               (Inr (), logger_info ''Exported to DOCX'' [(''file'', output_path)]
                          (s\<lparr>world := w'\<rparr>))))"

subsection \<open>The PDF exporter\<close>

text \<open>
  The constructor calls of the exporter, with their arguments:
  \<^verbatim>\<open>Paragraph(text, styles[name])\<close>, the style given by its name in the sample style
  sheet, and \<^verbatim>\<open>Spacer(width, height)\<close>. The text is what the exporter passes; what
  reportlab makes of its markup is the library's matter.
\<close>

datatype flowable = Paragraph string string | Spacer nat nat

text \<open>\<^verbatim>\<open>story.append(...)\<close> of a flowable that is constructed in the argument.\<close>

definition story_append ::
  "flowable library \<Rightarrow> flowable list \<Rightarrow> flowable \<Rightarrow> py_exception + flowable list" where
  "story_append lib story f = issue lib story f"

text \<open>The loop \<^verbatim>\<open>for section in policy["sections"]\<close> of \<^verbatim>\<open>export_to_pdf\<close>.\<close>

fun pdf_sections_loop ::
  "flowable library \<Rightarrow> PolicySection list \<Rightarrow> flowable list \<Rightarrow> py_exception + flowable list" where
  "pdf_sections_loop lib [] story = Inr story"
| "pdf_sections_loop lib (sec # rest) story =
     and_then (story_append lib story (Paragraph (title sec) ''Heading1'')) (\<lambda>story.
     and_then (story_append lib story (Spacer 1 6)) (\<lambda>story.
     and_then (story_append lib story (Paragraph (content sec) ''Normal'')) (\<lambda>story.
     and_then (story_append lib story (Spacer 1 12)) (\<lambda>story.
     pdf_sections_loop lib rest story))))"

text \<open>
  The statements of \<^verbatim>\<open>export_to_pdf\<close> before \<^verbatim>\<open>doc.build\<close>: the list \<^verbatim>\<open>story\<close>
  they build, or the exception of the first constructor call that the library refuses.
\<close>

definition pdf_story :: "flowable library \<Rightarrow> PolicyRecord \<Rightarrow> py_exception + flowable list" where
  "pdf_story lib policy =
     and_then (story_append lib [] (Paragraph (policy_title policy) ''Title'')) (\<lambda>story.
     and_then (story_append lib story (Spacer 1 12)) (\<lambda>story.
     and_then (story_append lib story
                 (Paragraph (''Organization: '' @ organization (metadata policy)) ''Normal'')) (\<lambda>story.
     and_then (story_append lib story (Spacer 1 12)) (\<lambda>story.
     pdf_sections_loop lib (sections policy) story))))"

text \<open>
  \<^verbatim>\<open>SimpleDocTemplate(output_path, pagesize=letter).build(story)\<close>: the document
  renderer, which may raise.
\<close>

type_synonym 'w pdf_renderer =
  "'w \<Rightarrow> string \<Rightarrow> flowable list \<Rightarrow> (py_exception + unit) \<times> 'w"

definition export_to_pdf ::
  "flowable library \<Rightarrow> 'w pdf_renderer \<Rightarrow> PolicyRecord \<Rightarrow> string \<Rightarrow> 'w state
     \<Rightarrow> (py_exception + unit) \<times> 'w state" where
  "export_to_pdf lib build policy output_path s =
     (case pdf_story lib policy of
        Inl e \<Rightarrow> (Inl e, s)
      | Inr story \<Rightarrow>
          (case build (world s) output_path story of
             (Inl e, w') \<Rightarrow> (Inl e, s\<lparr>world := w'\<rparr>)
           | (Inr _, w') \<Rightarrow>
               (Inr (), logger_info ''Exported to PDF'' [(''file'', output_path)]
                          (s\<lparr>world := w'\<rparr>))))"

subsection \<open>Reading a run and a document back\<close>

text \<open>
  What the collaborator did on each call of a run over the given section names, in call
  order: \<open>Inr\<close> the text it returned, \<open>Inl\<close> the exception of a failed call.
\<close>

fun call_outcomes ::
  "'w collaborator \<Rightarrow> PolicyConfig \<Rightarrow> string list \<Rightarrow> 'w \<Rightarrow> (py_exception + string) list" where
  "call_outcomes create config [] w = []"
| "call_outcomes create config (section_name # rest) w =
     (case request_content create (prompt section_name config) w of
        (r, w') \<Rightarrow> r # call_outcomes create config rest w')"

text \<open>The world after those calls.\<close>

fun world_after :: "'w collaborator \<Rightarrow> PolicyConfig \<Rightarrow> string list \<Rightarrow> 'w \<Rightarrow> 'w" where
  "world_after create config [] w = w"
| "world_after create config (section_name # rest) w =
     world_after create config rest (snd (request_content create (prompt section_name config) w))"

text \<open>The content a section gets from the outcome of its own call.\<close>

fun section_text :: "string \<Rightarrow> py_exception + string \<Rightarrow> string" where
  "section_text section_name (Inr text) = text"
| "section_text section_name (Inl e) = ''[Section content for '' @ section_name @ '']''"

text \<open>The diagnostic events of the failed calls among the outcomes.\<close>

fun failure_events :: "(py_exception + string) list \<Rightarrow> log_event list" where
  "failure_events [] = []"
| "failure_events (Inr text # rs) = failure_events rs"
| "failure_events (Inl (Exception msg) # rs) =
     LogEvent Error ''LLM generation failed'' [(''error'', msg)] # failure_events rs"

text \<open>The structural markers of a Word document: heading texts, and paragraph texts.\<close>

fun docx_headings :: "docx_instruction list \<Rightarrow> string list" where
  "docx_headings [] = []"
| "docx_headings (AddHeading text level # doc) = text # docx_headings doc"
| "docx_headings (_ # doc) = docx_headings doc"

fun docx_paragraphs :: "docx_instruction list \<Rightarrow> string list" where
  "docx_paragraphs [] = []"
| "docx_paragraphs (AddParagraph text # doc) = text # docx_paragraphs doc"
| "docx_paragraphs (_ # doc) = docx_paragraphs doc"

text \<open>
  The structural markers of a PDF story: the texts of the paragraphs in a heading style
  (\<^verbatim>\<open>Title\<close> or \<^verbatim>\<open>Heading1\<close>), and the texts of the paragraphs in the body style.
\<close>

fun pdf_headings :: "flowable list \<Rightarrow> string list" where
  "pdf_headings [] = []"
| "pdf_headings (Paragraph text style # story) =
     (if style = ''Title'' \<or> style = ''Heading1'' then text # pdf_headings story
      else pdf_headings story)"
| "pdf_headings (Spacer _ _ # story) = pdf_headings story"

fun pdf_paragraphs :: "flowable list \<Rightarrow> string list" where
  "pdf_paragraphs [] = []"
| "pdf_paragraphs (Paragraph text style # story) =
     (if style = ''Normal'' then text # pdf_paragraphs story else pdf_paragraphs story)"
| "pdf_paragraphs (Spacer _ _ # story) = pdf_paragraphs story"

text \<open>
  The exception of the first call of a sequence that the library refuses, if there is one,
  when the calls are made in order after those accepted so far.
\<close>

fun first_refusal :: "'i library \<Rightarrow> 'i list \<Rightarrow> 'i list \<Rightarrow> py_exception option" where
  "first_refusal lib accepted [] = None"
| "first_refusal lib accepted (call # rest) =
     (case lib accepted call of
        Some e \<Rightarrow> Some e
      | None \<Rightarrow> first_refusal lib (accepted @ [call]) rest)"

text \<open>
  The layout the specification gives for the Word export: title heading, metadata lines,
  page break, then heading, content and page break for each section.
\<close>

definition docx_layout :: "PolicyRecord \<Rightarrow> docx_instruction list" where
  "docx_layout policy =
     [AddHeading (policy_title policy) 0,
      AddParagraph (''Organization: '' @ organization (metadata policy)),
      AddParagraph (''Framework: '' @ policy_framework policy),
      AddParagraph (''Generated by: '' @ generated_by (metadata policy)),
      AddPageBreak]
     @ concat (map (\<lambda>sec. [AddHeading (title sec) 1, AddParagraph (content sec), AddPageBreak])
                 (sections policy))"

text \<open>
  The layout the specification gives for the PDF export: title, spacer, metadata line,
  spacer, then heading, spacer, content paragraph and spacer for each section.
\<close>

definition pdf_layout :: "PolicyRecord \<Rightarrow> flowable list" where
  "pdf_layout policy =
     [Paragraph (policy_title policy) ''Title'', Spacer 1 12,
      Paragraph (''Organization: '' @ organization (metadata policy)) ''Normal'', Spacer 1 12]
     @ concat (map (\<lambda>sec. [Paragraph (title sec) ''Heading1'', Spacer 1 6,
                              Paragraph (content sec) ''Normal'', Spacer 1 12])
                 (sections policy))"

text \<open>The outcomes of the collaborator calls of one run of \<^verbatim>\<open>generate_policy\<close>.\<close>

definition run_outcomes ::
  "'w collaborator \<Rightarrow> PolicyConfig \<Rightarrow> 'w state \<Rightarrow> (py_exception + string) list" where
  "run_outcomes create config s =
     call_outcomes create config (take 5 (section_names config)) (world s)"

subsection \<open>Test doubles\<close>

text \<open>
  A collaborator that plays a script: the world is the list of the answers still to give,
  one per call.
\<close>

definition scripted :: "(py_exception + chat_response) list collaborator" where
  "scripted w request =
     (case w of [] \<Rightarrow> (Inl (Exception ''script exhausted''), []) | r # rest \<Rightarrow> (r, rest))"

text \<open>The configuration of the specification's RGPD scenario.\<close>

definition rgpd_acme :: PolicyConfig where
  "rgpd_acme = \<lparr>framework = ''RGPD'', organization_name = ''Acme'', industry = ''Finance'',
                 size_cfg = ''medium'', language = ''en''\<rparr>"

text \<open>
  A script for five calls: the second call fails, the fourth returns a response without
  choices, the others return text.
\<close>

definition script1 :: "(py_exception + chat_response) list" where
  "script1 = [Inr \<lparr>choices = [''Principles text'']\<rparr>, Inl (Exception ''quota exceeded''),
     Inr \<lparr>choices = [''Rights text'']\<rparr>, Inr \<lparr>choices = []\<rparr>, Inr \<lparr>choices = [''Breach text'', ''other'']\<rparr>]"

text \<open>
  A script whose first answer is, letter for letter, the placeholder of the first RGPD
  section, and whose second answer has surrounding blanks and a second choice.
\<close>

definition script2 :: "(py_exception + chat_response) list" where
  "script2 = [Inr \<lparr>choices = [''[Section content for Data Protection Principles]'']\<rparr>,
     Inr \<lparr>choices = [''  Lawful basis.  '', ''second choice'']\<rparr>]"

text \<open>
  A Word library that refuses a text with a control character, as python-docx does: its
  XML layer takes no NUL byte and no control character other than tab, line feed and
  carriage return.
\<close>

definition xml_incompatible :: "char \<Rightarrow> bool" where
  "xml_incompatible c =
     ((of_char c :: nat) < 32 \<and> (of_char c :: nat) \<noteq> 9 \<and> (of_char c :: nat) \<noteq> 10
        \<and> (of_char c :: nat) \<noteq> 13)"

definition xml_error :: "string \<Rightarrow> py_exception option" where
  "xml_error text =
     (if list_ex xml_incompatible text
      then Some (Exception ''All strings must be XML compatible: Unicode or ASCII, no NULL bytes or control characters'')
      else None)"

definition strict_docx :: "docx_instruction library" where
  "strict_docx doc call =
     (case call of
        AddHeading text level \<Rightarrow> xml_error text
      | AddParagraph text \<Rightarrow> xml_error text
      | AddPageBreak \<Rightarrow> None)"

text \<open>
  A PDF library whose paragraph constructor refuses a text in which a tag is opened and
  never closed, as reportlab's markup parser does. \<open>open_tags\<close> counts the tags still
  open at the end of a text.
\<close>

fun open_tags :: "string \<Rightarrow> nat \<Rightarrow> nat" where
  "open_tags [] depth = depth"
| "open_tags [c] depth = (if c = CHR ''<'' then Suc depth else depth)"
| "open_tags (c # d # cs) depth =
     (if c = CHR ''<'' then
        (if d = CHR ''/'' then open_tags cs (depth - 1) else open_tags (d # cs) (Suc depth))
      else open_tags (d # cs) depth)"

definition strict_reportlab :: "flowable library" where
  "strict_reportlab story call =
     (case call of
        Paragraph text style \<Rightarrow>
          (if open_tags text 0 = 0 then None
           else Some (Exception ''Parse error: unclosed tags''))
      | Spacer width height \<Rightarrow> None)"

text \<open>
  A writer and a renderer that keep what they are given: the world is the list of the
  files written.
\<close>

definition recording_save :: "(string \<times> docx_instruction list) list docx_writer" where
  "recording_save w doc output_path = (Inr (), w @ [(output_path, doc)])"

definition recording_build :: "(string \<times> flowable list) list pdf_renderer" where
  "recording_build w output_path story = (Inr (), w @ [(output_path, story)])"

text \<open>
  A record as \<^verbatim>\<open>generate_policy\<close> returns it after a failed first call and a successful
  second one, cut to two sections.
\<close>

definition placeholder_policy :: PolicyRecord where
  "placeholder_policy =
     \<lparr>policy_title = ''RGPD Security Policy - Acme'',
      policy_framework = ''RGPD'',
      sections =
        [\<lparr>title = ''Data Protection Principles'',
          content = ''[Section content for Data Protection Principles]''\<rparr>,
         \<lparr>title = ''Lawful Basis for Processing'', content = ''Lawful basis text''\<rparr>],
      metadata = \<lparr>organization = ''Acme'', metadata_industry = ''Finance'',
                  generated_by = ''Ayi NEDJIMI - ayinedjimi-consultants.fr''\<rparr>\<rparr>"

text \<open>The same record with one section, whose generated text is a control character.\<close>

definition control_policy :: PolicyRecord where
  "control_policy =
     placeholder_policy\<lparr>sections := [\<lparr>title = ''Data Protection Principles'', content = [CHR 0x01]\<rparr>]\<rparr>"

text \<open>The same record with one section, whose generated text opens a tag and leaves it open.\<close>

definition markup_policy :: PolicyRecord where
  "markup_policy =
     placeholder_policy\<lparr>sections := [\<lparr>title = ''Data Protection Principles'', content = ''<b>Mandatory''\<rparr>]\<rparr>"

section \<open>Properties\<close>

subsection \<open>A run of the assembler, in closed form\<close>

text \<open>
  The loop never leaves by an exception: it returns one section per name, whose content
  is decided by the outcome of that section's own call, and it logs one error event per
  failed call.
\<close>

lemma sections_loop_run:
  "sections_loop create config names acc s =
     (Inr (acc @ map2 (\<lambda>n r. \<lparr>title = n, content = section_text n r\<rparr>) names
                   (call_outcomes create config names (world s))),
      s\<lparr>world := world_after create config names (world s),
        log_events := log_events s @ failure_events (call_outcomes create config names (world s))\<rparr>)"
proof (induction names arbitrary: acc s)
  case Nil
  show ?case by simp
next
  case (Cons n names)
  show ?case
  proof (cases "request_content create (prompt n config) (world s)")
    case (Pair r w')
    show ?thesis
    proof (cases r)
      case (Inl e)
      obtain msg where e: "e = Exception msg" by (cases e)
      with Pair Inl show ?thesis
        by (simp add: generate_section_content_def logger_error_def Cons.IH)
    next
      case (Inr t)
      with Pair show ?thesis
        by (simp add: generate_section_content_def Cons.IH)
    qed
  qed
qed

lemma length_call_outcomes [simp]:
  "length (call_outcomes create config names w) = length names"
  by (induction names arbitrary: w) (auto split: prod.splits)

lemma length_run_outcomes:
  "length (run_outcomes create config s) = min 5 (length (section_names config))"
  by (simp add: run_outcomes_def min.commute)

lemma generate_policy_run:
  "generate_policy create config s =
     (Inr \<lparr>policy_title = framework config @ '' Security Policy - '' @ organization_name config,
           policy_framework = framework config,
           sections = map2 (\<lambda>n r. \<lparr>title = n, content = section_text n r\<rparr>)
                        (take 5 (section_names config)) (run_outcomes create config s),
           metadata = \<lparr>organization = organization_name config,
                       metadata_industry = industry config,
                       generated_by = ''Ayi NEDJIMI - ayinedjimi-consultants.fr''\<rparr>\<rparr>,
      s\<lparr>world := world_after create config (take 5 (section_names config)) (world s),
        log_events := log_events s
          @ [LogEvent Info ''Generating policy'' [(''framework'', framework config)]]
          @ failure_events (run_outcomes create config s)\<rparr>)"
  by (simp add: generate_policy_def generate_policy_sections_def sections_loop_run
      logger_info_def run_outcomes_def)

lemma titles_map2:
  "length rs = length names \<Longrightarrow>
   map title (map2 (\<lambda>n r. \<lparr>title = n, content = f n r\<rparr>) names rs) = names"
  by (induction names rs rule: list_induct2') auto

lemma failure_event_logged:
  "i < length rs \<Longrightarrow> rs ! i = Inl (Exception msg) \<Longrightarrow>
   LogEvent Error ''LLM generation failed'' [(''error'', msg)] \<in> set (failure_events rs)"
proof (induction rs arbitrary: i rule: failure_events.induct)
  case 1
  then show ?case by simp
next
  case (2 t rs)
  then show ?case by (cases i) auto
next
  case (3 m rs)
  then show ?case by (cases i) auto
qed


lemma contents_map2:
  "map content (map2 (\<lambda>n r. \<lparr>title = n, content = f n r\<rparr>) names rs) = map2 f names rs"
  by (induction names rs rule: list_induct2') auto

lemma generate_policy_returns:
  obtains r s' where
    "generate_policy create config s = (Inr r, s')"
    "map title (sections r) = take 5 (section_names config)"
    "map content (sections r) =
       map2 section_text (take 5 (section_names config)) (run_outcomes create config s)"
    "policy_title r = framework config @ '' Security Policy - '' @ organization_name config"
    "policy_framework r = framework config"
    "metadata r = \<lparr>organization = organization_name config, metadata_industry = industry config,
                   generated_by = ''Ayi NEDJIMI - ayinedjimi-consultants.fr''\<rparr>"
    "world s' = world_after create config (take 5 (section_names config)) (world s)"
    "log_events s' = log_events s
       @ [LogEvent Info ''Generating policy'' [(''framework'', framework config)]]
       @ failure_events (run_outcomes create config s)"
proof -
  let ?names = "take 5 (section_names config)"
  let ?secs = "map2 (\<lambda>n r. \<lparr>title = n, content = section_text n r\<rparr>) ?names
                 (run_outcomes create config s)"
  have "length (run_outcomes create config s) = length ?names"
    by (simp add: run_outcomes_def)
  then have "map title ?secs = ?names"
    by (rule titles_map2)
  moreover have "map content ?secs = map2 section_text ?names (run_outcomes create config s)"
    by (rule contents_map2)
  ultimately show thesis
    using that [OF generate_policy_run] by simp
qed

text \<open>The same, read section by section.\<close>

lemma generate_policy_at:
  obtains r s' where
    "generate_policy create config s = (Inr r, s')"
    "length (sections r) = length (take 5 (section_names config))"
    "\<And>j. j < length (take 5 (section_names config)) \<Longrightarrow>
       title (sections r ! j) = take 5 (section_names config) ! j"
    "\<And>j. j < length (take 5 (section_names config)) \<Longrightarrow>
       content (sections r ! j) =
         section_text (take 5 (section_names config) ! j) (run_outcomes create config s ! j)"
    "log_events s' = log_events s
       @ [LogEvent Info ''Generating policy'' [(''framework'', framework config)]]
       @ failure_events (run_outcomes create config s)"
proof -
  let ?names = "take 5 (section_names config)"
  let ?outs = "run_outcomes create config s"
  obtain r s' where run: "generate_policy create config s = (Inr r, s')"
    and titles: "map title (sections r) = ?names"
    and contents: "map content (sections r) = map2 section_text ?names ?outs"
    and logged: "log_events s' = log_events s
       @ [LogEvent Info ''Generating policy'' [(''framework'', framework config)]]
       @ failure_events ?outs"
    by (rule generate_policy_returns)
  have len_outs: "length ?outs = length ?names"
    by (simp add: run_outcomes_def)
  have len: "length (sections r) = length ?names"
    using titles by (metis length_map)
  have title_at: "title (sections r ! j) = ?names ! j" if "j < length ?names" for j
    using that len titles by (metis nth_map)
  have content_at: "content (sections r ! j) = section_text (?names ! j) (?outs ! j)"
    if "j < length ?names" for j
  proof -
    have "content (sections r ! j) = map content (sections r) ! j"
      using that len by simp
    also have "\<dots> = section_text (?names ! j) (?outs ! j)"
      unfolding contents using that len_outs by simp
    finally show ?thesis .
  qed
  show thesis
    using that [OF run len title_at content_at logged] by blast
qed

subsection \<open>The assembler\<close>

text \<open>
  C1. For every configuration, \<^verbatim>\<open>generate_policy\<close> returns a record whose list of sections
  has length \<open>min 5 n\<close>, where \<open>n\<close> is the length of the outline of the configuration's
  framework; the titles of the sections are the first \<open>min 5 n\<close> titles of the outline, in
  outline order; and there are never more than 5 sections.
\<close>

theorem generate_policy_sections_capped:
  "\<exists>r s'. generate_policy create config s = (Inr r, s') \<and>
     length (sections r) = min 5 (length (section_names config)) \<and>
     map title (sections r) = take (min 5 (length (section_names config))) (section_names config) \<and>
     length (sections r) \<le> 5"
proof -
  obtain r s' where run: "generate_policy create config s = (Inr r, s')"
    and titles: "map title (sections r) = take 5 (section_names config)"
    by (rule generate_policy_returns)
  have "length (sections r) = length (map title (sections r))"
    by simp
  also have "\<dots> = min 5 (length (section_names config))"
    by (simp add: titles min.commute)
  finally have len: "length (sections r) = min 5 (length (section_names config))" .
  have "take (min 5 (length (section_names config))) (section_names config)
          = take 5 (section_names config)"
    by (simp add: min_def)
  with run titles len show ?thesis
    by auto
qed

text \<open>
  C2. For the configuration with framework RGPD, organization Acme, industry Finance and
  size medium (whatever the language), \<^verbatim>\<open>generate_policy\<close> returns a record titled
  "RGPD Security Policy - Acme" with exactly 5 sections, titled "Data Protection
  Principles", "Lawful Basis for Processing", "Data Subject Rights", "Data Security
  Measures" and "Data Breach Notification", in that order.
\<close>

theorem generate_policy_rgpd_acme:
  "\<exists>r s'. generate_policy create
       \<lparr>framework = ''RGPD'', organization_name = ''Acme'', industry = ''Finance'',
        size_cfg = ''medium'', language = lang\<rparr> s = (Inr r, s') \<and>
     policy_title r = ''RGPD Security Policy - Acme'' \<and>
     map title (sections r) =
       [''Data Protection Principles'', ''Lawful Basis for Processing'', ''Data Subject Rights'',
        ''Data Security Measures'', ''Data Breach Notification''] \<and>
     length (sections r) = 5"
proof -
  let ?config = "\<lparr>framework = ''RGPD'', organization_name = ''Acme'', industry = ''Finance'',
        size_cfg = ''medium'', language = lang\<rparr>"
  obtain r s' where run: "generate_policy create ?config s = (Inr r, s')"
    and titles: "map title (sections r) = take 5 (section_names ?config)"
    and heading: "policy_title r = framework ?config @ '' Security Policy - '' @ organization_name ?config"
    by (rule generate_policy_returns)
  have names: "take 5 (section_names ?config) =
       [''Data Protection Principles'', ''Lawful Basis for Processing'', ''Data Subject Rights'',
        ''Data Security Measures'', ''Data Breach Notification'']"
    by (simp add: section_names_def framework_templates_def)
  have "length (sections r) = length (map title (sections r))"
    by simp
  also have "\<dots> = 5"
    unfolding titles names by simp
  finally have "length (sections r) = 5" .
  with run titles names heading show ?thesis
    by auto
qed

text \<open>
  C3. For a configuration whose framework is not a key of the outline table,
  \<^verbatim>\<open>generate_policy\<close> raises nothing and returns a record with no sections, titled
  "<framework> Security Policy - <organization_name>"; the collaborator is not called.
\<close>

theorem generate_policy_unknown_framework:
  assumes "framework_templates (framework config) = None"
  shows "\<exists>r s'. generate_policy create config s = (Inr r, s') \<and>
     sections r = [] \<and>
     policy_title r = framework config @ '' Security Policy - '' @ organization_name config \<and>
     world s' = world s"
proof -
  have names: "section_names config = []"
    using assms by (simp add: section_names_def)
  obtain r s' where run: "generate_policy create config s = (Inr r, s')"
    and titles: "map title (sections r) = take 5 (section_names config)"
    and heading: "policy_title r = framework config @ '' Security Policy - '' @ organization_name config"
    and w: "world s' = world_after create config (take 5 (section_names config)) (world s)"
    by (rule generate_policy_returns)
  from titles names have "sections r = []" by simp
  moreover from w names have "world s' = world s" by simp
  ultimately show ?thesis using run heading by auto
qed

theorem generate_policy_unknown_framework_witness:
  "framework_templates (framework (rgpd_acme\<lparr>framework := ''UNKNOWN_FW''\<rparr>)) = None \<and>
   (\<exists>r s'. generate_policy scripted (rgpd_acme\<lparr>framework := ''UNKNOWN_FW''\<rparr>)
              \<lparr>world = [], log_events = []\<rparr> = (Inr r, s') \<and>
     sections r = [] \<and>
     policy_title r = ''UNKNOWN_FW Security Policy - Acme'' \<and>
     world s' = [])"
proof -
  have h: "framework_templates (framework (rgpd_acme\<lparr>framework := ''UNKNOWN_FW''\<rparr>)) = None"
    by (simp add: framework_templates_def rgpd_acme_def)
  show ?thesis
    using h generate_policy_unknown_framework [OF h, of scripted "\<lparr>world = [], log_events = []\<rparr>"]
    by (simp add: rgpd_acme_def)
qed

subsection \<open>Failures of the collaborator\<close>

text \<open>
  C4. If the collaborator fails on the call for a section, then \<^verbatim>\<open>generate_policy\<close> still
  returns a record (the failure is not propagated), the content of that section is exactly
  "[Section content for <title>]", an error event carrying the exception's text is in the
  log, and the content of every other section is what its own call decides: the text
  that call returned, or the placeholder if that call failed too.
\<close>

theorem generate_policy_failure_isolated:
  assumes "i < length (take 5 (section_names config))"
    and "run_outcomes create config s ! i = Inl (Exception msg)"
  shows "\<exists>r s'. generate_policy create config s = (Inr r, s') \<and>
     title (sections r ! i) = take 5 (section_names config) ! i \<and>
     content (sections r ! i) = ''[Section content for '' @ title (sections r ! i) @ '']'' \<and>
     LogEvent Error ''LLM generation failed'' [(''error'', msg)] \<in> set (log_events s') \<and>
     (\<forall>j < length (take 5 (section_names config)). j \<noteq> i \<longrightarrow>
        content (sections r ! j) =
          section_text (take 5 (section_names config) ! j) (run_outcomes create config s ! j))"
proof -
  let ?names = "take 5 (section_names config)"
  let ?outs = "run_outcomes create config s"
  obtain r s' where run: "generate_policy create config s = (Inr r, s')"
    and title_at: "\<And>j. j < length ?names \<Longrightarrow> title (sections r ! j) = ?names ! j"
    and content_at: "\<And>j. j < length ?names \<Longrightarrow>
       content (sections r ! j) = section_text (?names ! j) (?outs ! j)"
    and logged: "log_events s' = log_events s
       @ [LogEvent Info ''Generating policy'' [(''framework'', framework config)]]
       @ failure_events ?outs"
    by (rule generate_policy_at [of create config s]) blast
  have len_outs: "length ?outs = length ?names"
    by (simp add: run_outcomes_def)
  have "content (sections r ! i) = ''[Section content for '' @ title (sections r ! i) @ '']''"
    using content_at [OF assms(1)] title_at [OF assms(1)] assms(2) by simp
  moreover have "LogEvent Error ''LLM generation failed'' [(''error'', msg)] \<in> set (log_events s')"
    using failure_event_logged [of i ?outs msg] assms len_outs logged by simp
  ultimately show ?thesis
    using run title_at [OF assms(1)] content_at by blast
qed

theorem generate_policy_failure_isolated_witness:
  "(1::nat) < length (take 5 (section_names rgpd_acme)) \<and>
   run_outcomes scripted rgpd_acme \<lparr>world = script1, log_events = []\<rparr> ! 1
     = Inl (Exception ''quota exceeded'') \<and>
   (\<exists>r s'. generate_policy scripted rgpd_acme \<lparr>world = script1, log_events = []\<rparr> = (Inr r, s') \<and>
      title (sections r ! 1) = ''Lawful Basis for Processing'' \<and>
      content (sections r ! 1) = ''[Section content for Lawful Basis for Processing]'' \<and>
      LogEvent Error ''LLM generation failed'' [(''error'', ''quota exceeded'')] \<in> set (log_events s') \<and>
      content (sections r ! 0) = ''Principles text'' \<and>
      content (sections r ! 2) = ''Rights text'' \<and>
      content (sections r ! 4) = ''Breach text'')"
proof -
  let ?s = "\<lparr>world = script1, log_events = []\<rparr>"
  have names: "take 5 (section_names rgpd_acme) =
       [''Data Protection Principles'', ''Lawful Basis for Processing'', ''Data Subject Rights'',
        ''Data Security Measures'', ''Data Breach Notification'']"
    by (simp add: rgpd_acme_def section_names_def framework_templates_def)
  have outs: "run_outcomes scripted rgpd_acme ?s =
      [Inr ''Principles text'', Inl (Exception ''quota exceeded''), Inr ''Rights text'',
       Inl (Exception ''list index out of range''), Inr ''Breach text'']"
    by (simp add: run_outcomes_def rgpd_acme_def section_names_def framework_templates_def
        script1_def scripted_def request_content_def)
  have h1: "(1::nat) < length (take 5 (section_names rgpd_acme))"
    by (simp add: names)
  have h2: "run_outcomes scripted rgpd_acme ?s ! 1 = Inl (Exception ''quota exceeded'')"
    by (simp add: outs)
  from generate_policy_failure_isolated [OF h1 h2] obtain r s' where
    run: "generate_policy scripted rgpd_acme ?s = (Inr r, s')"
    and failed: "title (sections r ! 1) = take 5 (section_names rgpd_acme) ! 1"
      "content (sections r ! 1) = ''[Section content for '' @ title (sections r ! 1) @ '']''"
    and logged: "LogEvent Error ''LLM generation failed'' [(''error'', ''quota exceeded'')]
      \<in> set (log_events s')"
    and others: "\<forall>j < length (take 5 (section_names rgpd_acme)). j \<noteq> 1 \<longrightarrow>
        content (sections r ! j) =
          section_text (take 5 (section_names rgpd_acme) ! j) (run_outcomes scripted rgpd_acme ?s ! j)"
    by blast
  have t1: "title (sections r ! 1) = ''Lawful Basis for Processing''"
    using failed(1) by (simp add: names)
  have c1: "content (sections r ! 1) = ''[Section content for Lawful Basis for Processing]''"
    using failed(2) unfolding t1 by simp
  have c0: "content (sections r ! 0) = ''Principles text''"
    using others [rule_format, of 0] by (simp add: names outs)
  have c2: "content (sections r ! 2) = ''Rights text''"
    using others [rule_format, of 2] by (simp add: names outs)
  have c4: "content (sections r ! 4) = ''Breach text''"
    using others [rule_format, of 4] by (simp add: names outs)
  show ?thesis
    using h1 h2 run t1 c1 logged c0 c2 c4 by blast
qed

text \<open>
  C5. \<^verbatim>\<open>generate_policy\<close> never raises, whatever the configuration and whatever the
  collaborator does: \<^verbatim>\<open>_generate_section_content\<close> always returns normally, so the loop
  never leaves by an exception, and the result is a well-formed record, with no sections
  when the outline is empty.
\<close>

theorem generate_policy_never_raises:
  "(\<exists>t s'. generate_section_content create section_name config s = (Inr t, s')) \<and>
   (\<exists>r s'. generate_policy create config s = (Inr r, s') \<and>
      policy_title r = framework config @ '' Security Policy - '' @ organization_name config \<and>
      policy_framework r = framework config \<and>
      metadata r = \<lparr>organization = organization_name config, metadata_industry = industry config,
                     generated_by = ''Ayi NEDJIMI - ayinedjimi-consultants.fr''\<rparr> \<and>
      (section_names config = [] \<longrightarrow> sections r = []))"
proof
  show "\<exists>t s'. generate_section_content create section_name config s = (Inr t, s')"
    by (auto simp: generate_section_content_def split: prod.splits sum.splits py_exception.splits)
next
  obtain r s' where run: "generate_policy create config s = (Inr r, s')"
    and titles: "map title (sections r) = take 5 (section_names config)"
    and rest: "policy_title r = framework config @ '' Security Policy - '' @ organization_name config"
      "policy_framework r = framework config"
      "metadata r = \<lparr>organization = organization_name config, metadata_industry = industry config,
                     generated_by = ''Ayi NEDJIMI - ayinedjimi-consultants.fr''\<rparr>"
    by (rule generate_policy_returns)
  from titles have "section_names config = [] \<longrightarrow> sections r = []"
    by auto
  with run rest show "\<exists>r s'. generate_policy create config s = (Inr r, s') \<and>
      policy_title r = framework config @ '' Security Policy - '' @ organization_name config \<and>
      policy_framework r = framework config \<and>
      metadata r = \<lparr>organization = organization_name config, metadata_industry = industry config,
                     generated_by = ''Ayi NEDJIMI - ayinedjimi-consultants.fr''\<rparr> \<and>
      (section_names config = [] \<longrightarrow> sections r = [])"
    by blast
qed

theorem generate_policy_never_raises_witness:
  "section_names (rgpd_acme\<lparr>framework := ''SOC2''\<rparr>) = [] \<and>
   (\<exists>t s'. generate_section_content scripted ''Access Control'' (rgpd_acme\<lparr>framework := ''SOC2''\<rparr>)
             \<lparr>world = [], log_events = []\<rparr> = (Inr t, s')) \<and>
   (\<exists>r s'. generate_policy scripted (rgpd_acme\<lparr>framework := ''SOC2''\<rparr>)
             \<lparr>world = [], log_events = []\<rparr> = (Inr r, s') \<and>
      policy_title r = ''SOC2 Security Policy - Acme'' \<and>
      policy_framework r = ''SOC2'' \<and>
      sections r = [])"
proof -
  have h: "section_names (rgpd_acme\<lparr>framework := ''SOC2''\<rparr>) = []"
    by (simp add: section_names_def framework_templates_def rgpd_acme_def)
  show ?thesis
    using h generate_policy_never_raises [of scripted "''Access Control''" "rgpd_acme\<lparr>framework := ''SOC2''\<rparr>"
        "\<lparr>world = [], log_events = []\<rparr>"]
    by (auto simp: rgpd_acme_def)
qed

text \<open>
  C10. When the collaborator succeeds for a section, the content of that section in the
  returned record is exactly the text of the first choice of its response, unchanged: the
  call returns it as it is and logs nothing, and the record stores it under the section's
  title. Content equal to the placeholder does not show a failure: there is a run in which
  the first call succeeds and the first section's content is the placeholder text.
\<close>

theorem generate_policy_keeps_collaborator_text:
  "(create (world s) (completion_request (prompt section_name config)) = (Inr response, w') \<and>
    choices response = c # cs \<longrightarrow>
      generate_section_content create section_name config s = (Inr c, s\<lparr>world := w'\<rparr>)) \<and>
   (i < length (take 5 (section_names config)) \<and> run_outcomes create config s ! i = Inr t \<longrightarrow>
      (\<exists>r s'. generate_policy create config s = (Inr r, s') \<and>
         title (sections r ! i) = take 5 (section_names config) ! i \<and>
         content (sections r ! i) = t)) \<and>
   (\<exists>config' w0 r s'.
      0 < length (take 5 (section_names config')) \<and>
      (\<exists>t'. run_outcomes scripted config' \<lparr>world = w0, log_events = []\<rparr> ! 0 = Inr t') \<and>
      generate_policy scripted config' \<lparr>world = w0, log_events = []\<rparr> = (Inr r, s') \<and>
      content (sections r ! 0) = ''[Section content for '' @ title (sections r ! 0) @ '']'')"
proof (intro conjI impI)
  assume "create (world s) (completion_request (prompt section_name config)) = (Inr response, w') \<and>
    choices response = c # cs"
  then show "generate_section_content create section_name config s = (Inr c, s\<lparr>world := w'\<rparr>)"
    by (simp add: generate_section_content_def request_content_def)
next
  assume a: "i < length (take 5 (section_names config)) \<and> run_outcomes create config s ! i = Inr t"
  obtain r s' where run: "generate_policy create config s = (Inr r, s')"
    and title_at: "\<And>j. j < length (take 5 (section_names config)) \<Longrightarrow>
       title (sections r ! j) = take 5 (section_names config) ! j"
    and content_at: "\<And>j. j < length (take 5 (section_names config)) \<Longrightarrow>
       content (sections r ! j) =
         section_text (take 5 (section_names config) ! j) (run_outcomes create config s ! j)"
    by (rule generate_policy_at [of create config s]) blast
  from a title_at content_at have "title (sections r ! i) = take 5 (section_names config) ! i"
    "content (sections r ! i) = t"
    by simp_all
  with run show "\<exists>r s'. generate_policy create config s = (Inr r, s') \<and>
         title (sections r ! i) = take 5 (section_names config) ! i \<and>
         content (sections r ! i) = t"
    by blast
next
  let ?s = "\<lparr>world = script2, log_events = []\<rparr>"
  have names: "take 5 (section_names rgpd_acme) =
       [''Data Protection Principles'', ''Lawful Basis for Processing'', ''Data Subject Rights'',
        ''Data Security Measures'', ''Data Breach Notification'']"
    by (simp add: rgpd_acme_def section_names_def framework_templates_def)
  have outs: "run_outcomes scripted rgpd_acme ?s =
      [Inr ''[Section content for Data Protection Principles]'', Inr ''  Lawful basis.  '',
       Inl (Exception ''script exhausted''), Inl (Exception ''script exhausted''),
       Inl (Exception ''script exhausted'')]"
    by (simp add: run_outcomes_def rgpd_acme_def section_names_def framework_templates_def
        script2_def scripted_def request_content_def)
  obtain r s' where run: "generate_policy scripted rgpd_acme ?s = (Inr r, s')"
    and title_at: "\<And>j. j < length (take 5 (section_names rgpd_acme)) \<Longrightarrow>
       title (sections r ! j) = take 5 (section_names rgpd_acme) ! j"
    and content_at: "\<And>j. j < length (take 5 (section_names rgpd_acme)) \<Longrightarrow>
       content (sections r ! j) =
         section_text (take 5 (section_names rgpd_acme) ! j) (run_outcomes scripted rgpd_acme ?s ! j)"
    by (rule generate_policy_at [of scripted rgpd_acme ?s]) blast
  have t0: "title (sections r ! 0) = ''Data Protection Principles''"
    using title_at [of 0] by (simp add: names)
  have c0: "content (sections r ! 0) = ''[Section content for Data Protection Principles]''"
    using content_at [of 0] by (simp add: names outs)
  have "content (sections r ! 0) = ''[Section content for '' @ title (sections r ! 0) @ '']''"
    unfolding t0 c0 by simp
  moreover have "0 < length (take 5 (section_names rgpd_acme))"
    by (simp add: names)
  moreover have "\<exists>t'. run_outcomes scripted rgpd_acme ?s ! 0 = Inr t'"
    by (simp add: outs)
  ultimately show "\<exists>config' w0 r s'.
      0 < length (take 5 (section_names config')) \<and>
      (\<exists>t'. run_outcomes scripted config' \<lparr>world = w0, log_events = []\<rparr> ! 0 = Inr t') \<and>
      generate_policy scripted config' \<lparr>world = w0, log_events = []\<rparr> = (Inr r, s') \<and>
      content (sections r ! 0) = ''[Section content for '' @ title (sections r ! 0) @ '']''"
    using run by blast
qed

theorem generate_policy_keeps_collaborator_text_witness:
  "scripted (world \<lparr>world = script2, log_events = []\<rparr>)
       (completion_request (prompt ''Data Protection Principles'' rgpd_acme))
     = (Inr \<lparr>choices = [''[Section content for Data Protection Principles]'']\<rparr>,
        [Inr \<lparr>choices = [''  Lawful basis.  '', ''second choice'']\<rparr>]) \<and>
   generate_section_content scripted ''Data Protection Principles'' rgpd_acme
       \<lparr>world = script2, log_events = []\<rparr>
     = (Inr ''[Section content for Data Protection Principles]'',
        \<lparr>world = [Inr \<lparr>choices = [''  Lawful basis.  '', ''second choice'']\<rparr>], log_events = []\<rparr>) \<and>
   (1::nat) < length (take 5 (section_names rgpd_acme)) \<and>
   run_outcomes scripted rgpd_acme \<lparr>world = script2, log_events = []\<rparr> ! 1 = Inr ''  Lawful basis.  '' \<and>
   (\<exists>r s'. generate_policy scripted rgpd_acme \<lparr>world = script2, log_events = []\<rparr> = (Inr r, s') \<and>
      title (sections r ! 1) = ''Lawful Basis for Processing'' \<and>
      content (sections r ! 1) = ''  Lawful basis.  '')"
proof -
  let ?s = "\<lparr>world = script2, log_events = []\<rparr>"
  let ?rest = "[Inr \<lparr>choices = [''  Lawful basis.  '', ''second choice'']\<rparr>]"
  let ?response = "\<lparr>choices = [''[Section content for Data Protection Principles]'']\<rparr>"
  have names: "take 5 (section_names rgpd_acme) =
       [''Data Protection Principles'', ''Lawful Basis for Processing'', ''Data Subject Rights'',
        ''Data Security Measures'', ''Data Breach Notification'']"
    by (simp add: rgpd_acme_def section_names_def framework_templates_def)
  have outs: "run_outcomes scripted rgpd_acme ?s =
      [Inr ''[Section content for Data Protection Principles]'', Inr ''  Lawful basis.  '',
       Inl (Exception ''script exhausted''), Inl (Exception ''script exhausted''),
       Inl (Exception ''script exhausted'')]"
    by (simp add: run_outcomes_def rgpd_acme_def section_names_def framework_templates_def
        script2_def scripted_def request_content_def)
  have h1: "scripted (world ?s) (completion_request (prompt ''Data Protection Principles'' rgpd_acme))
      = (Inr ?response, ?rest) \<and>
      choices ?response = ''[Section content for Data Protection Principles]'' # []"
    by (simp add: scripted_def script2_def)
  have h2: "(1::nat) < length (take 5 (section_names rgpd_acme)) \<and>
      run_outcomes scripted rgpd_acme ?s ! 1 = Inr ''  Lawful basis.  ''"
    by (simp add: names outs)
  note inst = generate_policy_keeps_collaborator_text [of scripted ?s "''Data Protection Principles''" rgpd_acme ?response ?rest
      "''[Section content for Data Protection Principles]''" "[]" 1 "''  Lawful basis.  ''"]
  from inst h1 have call: "generate_section_content scripted ''Data Protection Principles'' rgpd_acme ?s
      = (Inr ''[Section content for Data Protection Principles]'', ?s\<lparr>world := ?rest\<rparr>)"
    by blast
  from inst h2 obtain r s' where run: "generate_policy scripted rgpd_acme ?s = (Inr r, s')"
    and t1: "title (sections r ! 1) = take 5 (section_names rgpd_acme) ! 1"
    and c1: "content (sections r ! 1) = ''  Lawful basis.  ''"
    by blast
  have "title (sections r ! 1) = ''Lawful Basis for Processing''"
    using t1 by (simp add: names)
  with h1 h2 call run c1 show ?thesis
    by auto
qed

subsection \<open>The outline table\<close>

lemma dom_framework_templates:
  "dom framework_templates = {''ISO27001'', ''RGPD'', ''NIS2''}"
  by (auto simp: framework_templates_def split: if_splits)

text \<open>
  C6. For every framework that is a key of the outline table, the lookup
  \<^verbatim>\<open>framework_templates.get(framework, [])\<close> returns the list stored under that key,
  which is not empty and has no duplicate titles.
\<close>

theorem section_names_known_framework:
  assumes "framework config \<in> dom framework_templates"
  shows "framework_templates (framework config) = Some (section_names config) \<and>
         section_names config \<noteq> [] \<and> distinct (section_names config)"
proof -
  from assms consider "framework config = ''ISO27001''" | "framework config = ''RGPD''"
    | "framework config = ''NIS2''"
    by (auto simp: dom_framework_templates)
  then show ?thesis
  proof cases
    case 1
    then show ?thesis by (simp add: section_names_def framework_templates_def)
  next
    case 2
    then show ?thesis by (simp add: section_names_def framework_templates_def)
  next
    case 3
    then show ?thesis by (simp add: section_names_def framework_templates_def)
  qed
qed

theorem section_names_known_framework_witness:
  "framework (rgpd_acme\<lparr>framework := ''NIS2''\<rparr>) \<in> dom framework_templates \<and>
   section_names (rgpd_acme\<lparr>framework := ''NIS2''\<rparr>) =
     [''Risk Management'', ''Corporate Governance'', ''Business Continuity'',
      ''Supply Chain Security'', ''Security in Network and Information Systems'',
      ''Incident Handling'', ''Security Testing and Auditing''] \<and>
   section_names (rgpd_acme\<lparr>framework := ''NIS2''\<rparr>) \<noteq> [] \<and>
   distinct (section_names (rgpd_acme\<lparr>framework := ''NIS2''\<rparr>))"
proof -
  have h: "framework (rgpd_acme\<lparr>framework := ''NIS2''\<rparr>) \<in> dom framework_templates"
    by (simp add: framework_templates_def rgpd_acme_def)
  have "section_names (rgpd_acme\<lparr>framework := ''NIS2''\<rparr>) =
     [''Risk Management'', ''Corporate Governance'', ''Business Continuity'',
      ''Supply Chain Security'', ''Security in Network and Information Systems'',
      ''Incident Handling'', ''Security Testing and Auditing'']"
    by (simp add: section_names_def framework_templates_def rgpd_acme_def)
  with h section_names_known_framework [OF h] show ?thesis
    by blast
qed

subsection \<open>The language field\<close>

lemma section_names_language:
  "section_names (config\<lparr>language := l\<rparr>) = section_names config"
  by (simp add: section_names_def)

lemma prompt_language:
  "prompt section_name (config\<lparr>language := l\<rparr>) = prompt section_name config"
  by (simp add: prompt_def)

lemma generate_section_content_language:
  "generate_section_content create section_name (config\<lparr>language := l\<rparr>) s =
   generate_section_content create section_name config s"
  by (simp add: generate_section_content_def prompt_language)

lemma sections_loop_language:
  "sections_loop create (config\<lparr>language := l\<rparr>) names acc s =
   sections_loop create config names acc s"
  by (induction names arbitrary: acc s)
     (simp_all add: generate_section_content_language split: prod.splits sum.splits)

text \<open>
  C9. Generation does not depend on the language of the configuration: for two
  configurations that differ only in that field, the prompt of every section title is the
  same string, and with the same collaborator and the same starting state
  \<^verbatim>\<open>generate_policy\<close> returns the same record and leaves the same state.
\<close>

theorem generation_ignores_language:
  "prompt section_name (config\<lparr>language := l\<rparr>) = prompt section_name (config\<lparr>language := l'\<rparr>) \<and>
   generate_policy create (config\<lparr>language := l\<rparr>) s =
     generate_policy create (config\<lparr>language := l'\<rparr>) s"
  by (simp add: prompt_def generate_policy_def generate_policy_sections_def
      section_names_language sections_loop_language split: prod.splits sum.splits)

subsection \<open>The exporters\<close>

text \<open>
  Each exporter makes the calls of its layout in order. The first call that the library
  refuses ends it with that exception; if none is refused, what is built is the layout.
\<close>

lemma and_then_issue:
  "and_then (issue lib accepted call) f =
     (case lib accepted call of Some e \<Rightarrow> Inl e | None \<Rightarrow> f (accepted @ [call]))"
  by (simp add: and_then_def issue_def split: option.splits)

lemma docx_sections_loop_run:
  "docx_sections_loop lib secs doc =
     (case first_refusal lib doc
             (concat (map (\<lambda>sec. [AddHeading (title sec) 1, AddParagraph (content sec), AddPageBreak]) secs)) of
        Some e \<Rightarrow> Inl e
      | None \<Rightarrow> Inr (doc @ concat (map (\<lambda>sec. [AddHeading (title sec) 1, AddParagraph (content sec), AddPageBreak]) secs)))"
  by (induction secs arbitrary: doc)
     (simp_all add: add_heading_def add_paragraph_def add_page_break_def and_then_issue
        split: option.splits)

lemma pdf_sections_loop_run:
  "pdf_sections_loop lib secs story =
     (case first_refusal lib story
             (concat (map (\<lambda>sec. [Paragraph (title sec) ''Heading1'', Spacer 1 6,
                              Paragraph (content sec) ''Normal'', Spacer 1 12]) secs)) of
        Some e \<Rightarrow> Inl e
      | None \<Rightarrow> Inr (story @ concat (map (\<lambda>sec. [Paragraph (title sec) ''Heading1'', Spacer 1 6,
                              Paragraph (content sec) ''Normal'', Spacer 1 12]) secs)))"
  by (induction secs arbitrary: story)
     (simp_all add: story_append_def and_then_issue split: option.splits)

lemma docx_document_run:
  "docx_document lib policy =
     (case first_refusal lib [] (docx_layout policy) of
        Some e \<Rightarrow> Inl e
      | None \<Rightarrow> Inr (docx_layout policy))"
  by (simp add: docx_document_def docx_layout_def Document_def add_heading_def add_paragraph_def
      add_page_break_def and_then_issue docx_sections_loop_run split: option.splits)

lemma pdf_story_run:
  "pdf_story lib policy =
     (case first_refusal lib [] (pdf_layout policy) of
        Some e \<Rightarrow> Inl e
      | None \<Rightarrow> Inr (pdf_layout policy))"
  by (simp add: pdf_story_def pdf_layout_def story_append_def and_then_issue
      pdf_sections_loop_run split: option.splits)

text \<open>The headings and the body paragraphs of a layout.\<close>

lemma docx_headings_sections:
  "docx_headings (concat (map (\<lambda>sec. [AddHeading (title sec) level, AddParagraph (content sec), AddPageBreak]) secs))
     = map title secs"
  by (induction secs) simp_all

lemma docx_paragraphs_sections:
  "docx_paragraphs (concat (map (\<lambda>sec. [AddHeading (title sec) level, AddParagraph (content sec), AddPageBreak]) secs))
     = map content secs"
  by (induction secs) simp_all

lemma pdf_headings_sections:
  "pdf_headings (concat (map (\<lambda>sec. [Paragraph (title sec) ''Heading1'', Spacer w h,
                              Paragraph (content sec) ''Normal'', Spacer w' h']) secs))
     = map title secs"
  by (induction secs) simp_all

lemma pdf_paragraphs_sections:
  "pdf_paragraphs (concat (map (\<lambda>sec. [Paragraph (title sec) ''Heading1'', Spacer w h,
                              Paragraph (content sec) ''Normal'', Spacer w' h']) secs))
     = map content secs"
  by (induction secs) simp_all

lemma docx_layout_markers:
  "docx_headings (docx_layout policy) = policy_title policy # map title (sections policy)"
  "docx_paragraphs (docx_layout policy) =
     [''Organization: '' @ organization (metadata policy),
      ''Framework: '' @ policy_framework policy,
      ''Generated by: '' @ generated_by (metadata policy)] @ map content (sections policy)"
  by (simp_all add: docx_layout_def docx_headings_sections docx_paragraphs_sections)

lemma pdf_layout_markers:
  "pdf_headings (pdf_layout policy) = policy_title policy # map title (sections policy)"
  "pdf_paragraphs (pdf_layout policy) =
     (''Organization: '' @ organization (metadata policy)) # map content (sections policy)"
  by (simp_all add: pdf_layout_def pdf_headings_sections pdf_paragraphs_sections)

text \<open>
  The claim C7 as it stands fails. This record has one section, whose content opens a
  tag and leaves it open. A PDF library that refuses unclosed markup raises in the
  paragraph constructor, the exception leaves \<^verbatim>\<open>export_to_pdf\<close>, and nothing reaches
  the renderer or the log: no heading is rendered for the section.
\<close>

theorem exporters_preserve_sections_counterexample:
  "length (sections markup_policy) = 1 \<and>
   export_to_pdf strict_reportlab recording_build markup_policy ''policy.pdf''
       \<lparr>world = [], log_events = []\<rparr>
     = (Inl (Exception ''Parse error: unclosed tags''), \<lparr>world = [], log_events = []\<rparr>)"
  by (simp add: export_to_pdf_def pdf_story_run pdf_layout_def markup_policy_def
      placeholder_policy_def strict_reportlab_def)

text \<open>
  C7, amended. Both exporters keep the order of the record's sections and have no special
  case for any content, the placeholder included. When the document library accepts
  every call of the export, the document built is the layout, it is what the writer or
  the renderer is given, and a save or build that returns is logged; the headings of the
  layout are the record's title followed by the section titles in order (one heading per
  section plus the title heading), and its body paragraphs are the metadata lines followed
  by the section contents in order. When the library refuses a call, the exporter raises
  the exception of the first refused call; nothing is written and nothing is logged.
\<close>

theorem exporters_preserve_sections:
  "(first_refusal docx_lib [] (docx_layout policy) = None \<longrightarrow>
      docx_document docx_lib policy = Inr (docx_layout policy) \<and>
      export_to_docx docx_lib save policy output_path s =
        (case save (world s) (docx_layout policy) output_path of
           (Inl e, w') \<Rightarrow> (Inl e, s\<lparr>world := w'\<rparr>)
         | (Inr u, w') \<Rightarrow>
             (Inr (), s\<lparr>world := w',
                        log_events := log_events s
                          @ [LogEvent Info ''Exported to DOCX'' [(''file'', output_path)]]\<rparr>))) \<and>
   (first_refusal pdf_lib [] (pdf_layout policy) = None \<longrightarrow>
      pdf_story pdf_lib policy = Inr (pdf_layout policy) \<and>
      export_to_pdf pdf_lib build policy output_path s =
        (case build (world s) output_path (pdf_layout policy) of
           (Inl e, w') \<Rightarrow> (Inl e, s\<lparr>world := w'\<rparr>)
         | (Inr u, w') \<Rightarrow>
             (Inr (), s\<lparr>world := w',
                        log_events := log_events s
                          @ [LogEvent Info ''Exported to PDF'' [(''file'', output_path)]]\<rparr>))) \<and>
   docx_headings (docx_layout policy) = policy_title policy # map title (sections policy) \<and>
   pdf_headings (pdf_layout policy) = policy_title policy # map title (sections policy) \<and>
   docx_paragraphs (docx_layout policy) =
     [''Organization: '' @ organization (metadata policy),
      ''Framework: '' @ policy_framework policy,
      ''Generated by: '' @ generated_by (metadata policy)] @ map content (sections policy) \<and>
   pdf_paragraphs (pdf_layout policy) =
     (''Organization: '' @ organization (metadata policy)) # map content (sections policy) \<and>
   (first_refusal docx_lib [] (docx_layout policy) = Some e \<longrightarrow>
      export_to_docx docx_lib save policy output_path s = (Inl e, s)) \<and>
   (first_refusal pdf_lib [] (pdf_layout policy) = Some e \<longrightarrow>
      export_to_pdf pdf_lib build policy output_path s = (Inl e, s))"
proof (intro conjI impI)
  assume accepted: "first_refusal docx_lib [] (docx_layout policy) = None"
  then show built: "docx_document docx_lib policy = Inr (docx_layout policy)"
    by (simp add: docx_document_run)
  show "export_to_docx docx_lib save policy output_path s =
        (case save (world s) (docx_layout policy) output_path of
           (Inl e, w') \<Rightarrow> (Inl e, s\<lparr>world := w'\<rparr>)
         | (Inr u, w') \<Rightarrow>
             (Inr (), s\<lparr>world := w',
                        log_events := log_events s
                          @ [LogEvent Info ''Exported to DOCX'' [(''file'', output_path)]]\<rparr>))"
    by (simp add: export_to_docx_def built logger_info_def split: prod.splits sum.splits)
next
  assume accepted: "first_refusal pdf_lib [] (pdf_layout policy) = None"
  then show built: "pdf_story pdf_lib policy = Inr (pdf_layout policy)"
    by (simp add: pdf_story_run)
  show "export_to_pdf pdf_lib build policy output_path s =
        (case build (world s) output_path (pdf_layout policy) of
           (Inl e, w') \<Rightarrow> (Inl e, s\<lparr>world := w'\<rparr>)
         | (Inr u, w') \<Rightarrow>
             (Inr (), s\<lparr>world := w',
                        log_events := log_events s
                          @ [LogEvent Info ''Exported to PDF'' [(''file'', output_path)]]\<rparr>))"
    by (simp add: export_to_pdf_def built logger_info_def split: prod.splits sum.splits)
next
  show "docx_headings (docx_layout policy) = policy_title policy # map title (sections policy)"
    by (rule docx_layout_markers)
next
  show "pdf_headings (pdf_layout policy) = policy_title policy # map title (sections policy)"
    by (rule pdf_layout_markers)
next
  show "docx_paragraphs (docx_layout policy) =
     [''Organization: '' @ organization (metadata policy),
      ''Framework: '' @ policy_framework policy,
      ''Generated by: '' @ generated_by (metadata policy)] @ map content (sections policy)"
    by (rule docx_layout_markers)
next
  show "pdf_paragraphs (pdf_layout policy) =
     (''Organization: '' @ organization (metadata policy)) # map content (sections policy)"
    by (rule pdf_layout_markers)
next
  assume "first_refusal docx_lib [] (docx_layout policy) = Some e"
  then show "export_to_docx docx_lib save policy output_path s = (Inl e, s)"
    by (simp add: export_to_docx_def docx_document_run)
next
  assume "first_refusal pdf_lib [] (pdf_layout policy) = Some e"
  then show "export_to_pdf pdf_lib build policy output_path s = (Inl e, s)"
    by (simp add: export_to_pdf_def pdf_story_run)
qed

theorem exporters_preserve_sections_witness:
  "first_refusal strict_docx [] (docx_layout placeholder_policy) = None \<and>
   first_refusal strict_reportlab [] (pdf_layout placeholder_policy) = None \<and>
   export_to_docx strict_docx recording_save placeholder_policy ''policy.docx''
       \<lparr>world = [], log_events = []\<rparr>
     = (Inr (), \<lparr>world = [(''policy.docx'', docx_layout placeholder_policy)],
                 log_events = [LogEvent Info ''Exported to DOCX'' [(''file'', ''policy.docx'')]]\<rparr>) \<and>
   export_to_pdf strict_reportlab recording_build placeholder_policy ''policy.pdf''
       \<lparr>world = [], log_events = []\<rparr>
     = (Inr (), \<lparr>world = [(''policy.pdf'', pdf_layout placeholder_policy)],
                 log_events = [LogEvent Info ''Exported to PDF'' [(''file'', ''policy.pdf'')]]\<rparr>) \<and>
   docx_headings (docx_layout placeholder_policy) =
     [''RGPD Security Policy - Acme'', ''Data Protection Principles'',
      ''Lawful Basis for Processing''] \<and>
   pdf_headings (pdf_layout placeholder_policy) =
     [''RGPD Security Policy - Acme'', ''Data Protection Principles'',
      ''Lawful Basis for Processing''] \<and>
   docx_paragraphs (docx_layout placeholder_policy) =
     [''Organization: Acme'', ''Framework: RGPD'',
      ''Generated by: Ayi NEDJIMI - ayinedjimi-consultants.fr'',
      ''[Section content for Data Protection Principles]'', ''Lawful basis text''] \<and>
   pdf_paragraphs (pdf_layout placeholder_policy) =
     [''Organization: Acme'', ''[Section content for Data Protection Principles]'',
      ''Lawful basis text''] \<and>
   first_refusal strict_docx [] (docx_layout control_policy)
     = Some (Exception ''All strings must be XML compatible: Unicode or ASCII, no NULL bytes or control characters'') \<and>
   export_to_docx strict_docx recording_save control_policy ''policy.docx''
       \<lparr>world = [], log_events = []\<rparr>
     = (Inl (Exception ''All strings must be XML compatible: Unicode or ASCII, no NULL bytes or control characters''),
        \<lparr>world = [], log_events = []\<rparr>) \<and>
   first_refusal strict_reportlab [] (pdf_layout markup_policy)
     = Some (Exception ''Parse error: unclosed tags'') \<and>
   export_to_pdf strict_reportlab recording_build markup_policy ''policy.pdf''
       \<lparr>world = [], log_events = []\<rparr>
     = (Inl (Exception ''Parse error: unclosed tags''), \<lparr>world = [], log_events = []\<rparr>)"
proof -
  let ?xml = "Exception ''All strings must be XML compatible: Unicode or ASCII, no NULL bytes or control characters''"
  let ?parse = "Exception ''Parse error: unclosed tags''"
  have h1: "first_refusal strict_docx [] (docx_layout placeholder_policy) = None"
    by (simp add: docx_layout_def placeholder_policy_def strict_docx_def xml_error_def
        xml_incompatible_def)
  have h2: "first_refusal strict_reportlab [] (pdf_layout placeholder_policy) = None"
    by (simp add: pdf_layout_def placeholder_policy_def strict_reportlab_def)
  have h3: "first_refusal strict_docx [] (docx_layout control_policy) = Some ?xml"
    by (simp add: docx_layout_def control_policy_def placeholder_policy_def strict_docx_def
        xml_error_def xml_incompatible_def)
  have h4: "first_refusal strict_reportlab [] (pdf_layout markup_policy) = Some ?parse"
    by (simp add: pdf_layout_def markup_policy_def placeholder_policy_def strict_reportlab_def)
  note word = exporters_preserve_sections [where docx_lib = strict_docx
      and policy = placeholder_policy and save = recording_save
      and output_path = "''policy.docx''" and s = "\<lparr>world = [], log_events = []\<rparr>"]
  note pdf = exporters_preserve_sections [where pdf_lib = strict_reportlab
      and policy = placeholder_policy and build = recording_build
      and output_path = "''policy.pdf''" and s = "\<lparr>world = [], log_events = []\<rparr>"]
  note word_refused = exporters_preserve_sections [where docx_lib = strict_docx
      and policy = control_policy and save = recording_save
      and output_path = "''policy.docx''" and s = "\<lparr>world = [], log_events = []\<rparr>"
      and e = ?xml]
  note pdf_refused = exporters_preserve_sections [where pdf_lib = strict_reportlab
      and policy = markup_policy and build = recording_build
      and output_path = "''policy.pdf''" and s = "\<lparr>world = [], log_events = []\<rparr>"
      and e = ?parse]
  have a: "export_to_docx strict_docx recording_save placeholder_policy ''policy.docx''
       \<lparr>world = [], log_events = []\<rparr>
     = (Inr (), \<lparr>world = [(''policy.docx'', docx_layout placeholder_policy)],
                 log_events = [LogEvent Info ''Exported to DOCX'' [(''file'', ''policy.docx'')]]\<rparr>)"
    using word [THEN conjunct1, rule_format, OF h1, THEN conjunct2]
    by (simp add: recording_save_def)
  have b: "export_to_pdf strict_reportlab recording_build placeholder_policy ''policy.pdf''
       \<lparr>world = [], log_events = []\<rparr>
     = (Inr (), \<lparr>world = [(''policy.pdf'', pdf_layout placeholder_policy)],
                 log_events = [LogEvent Info ''Exported to PDF'' [(''file'', ''policy.pdf'')]]\<rparr>)"
    using pdf [THEN conjunct2, THEN conjunct1, rule_format, OF h2, THEN conjunct2]
    by (simp add: recording_build_def)
  note markers = word [THEN conjunct2, THEN conjunct2]
  have c: "docx_headings (docx_layout placeholder_policy) =
     [''RGPD Security Policy - Acme'', ''Data Protection Principles'',
      ''Lawful Basis for Processing'']"
    unfolding markers [THEN conjunct1] by (simp add: placeholder_policy_def)
  have d: "pdf_headings (pdf_layout placeholder_policy) =
     [''RGPD Security Policy - Acme'', ''Data Protection Principles'',
      ''Lawful Basis for Processing'']"
    unfolding markers [THEN conjunct2, THEN conjunct1] by (simp add: placeholder_policy_def)
  have e: "docx_paragraphs (docx_layout placeholder_policy) =
     [''Organization: Acme'', ''Framework: RGPD'',
      ''Generated by: Ayi NEDJIMI - ayinedjimi-consultants.fr'',
      ''[Section content for Data Protection Principles]'', ''Lawful basis text'']"
    unfolding markers [THEN conjunct2, THEN conjunct2, THEN conjunct1]
    by (simp add: placeholder_policy_def)
  have f: "pdf_paragraphs (pdf_layout placeholder_policy) =
     [''Organization: Acme'', ''[Section content for Data Protection Principles]'',
      ''Lawful basis text'']"
    unfolding markers [THEN conjunct2, THEN conjunct2, THEN conjunct2, THEN conjunct1]
    by (simp add: placeholder_policy_def)
  have g: "export_to_docx strict_docx recording_save control_policy ''policy.docx''
       \<lparr>world = [], log_events = []\<rparr> = (Inl ?xml, \<lparr>world = [], log_events = []\<rparr>)"
    by (rule word_refused [THEN conjunct2, THEN conjunct2, THEN conjunct2, THEN conjunct2,
          THEN conjunct2, THEN conjunct2, THEN conjunct1, rule_format, OF h3])
  have h: "export_to_pdf strict_reportlab recording_build markup_policy ''policy.pdf''
       \<lparr>world = [], log_events = []\<rparr> = (Inl ?parse, \<lparr>world = [], log_events = []\<rparr>)"
    by (rule pdf_refused [THEN conjunct2, THEN conjunct2, THEN conjunct2, THEN conjunct2,
          THEN conjunct2, THEN conjunct2, THEN conjunct2, rule_format, OF h4])
  show ?thesis
    by (intro conjI) (fact h1 h2 a b c d e f h3 g h4 h)+
qed

text \<open>
  The claim C8 as it stands fails. This record has one section, whose content is a
  control character. A Word library that refuses control characters raises at that
  section's paragraph, the exception leaves \<^verbatim>\<open>export_to_docx\<close>, and the writer is never
  called: the sequence of the claim is not emitted.
\<close>

theorem export_to_docx_layout_counterexample:
  "length (sections control_policy) = 1 \<and>
   export_to_docx strict_docx recording_save control_policy ''policy.docx''
       \<lparr>world = [], log_events = []\<rparr>
     = (Inl (Exception ''All strings must be XML compatible: Unicode or ASCII, no NULL bytes or control characters''),
        \<lparr>world = [], log_events = []\<rparr>)"
  by (simp add: export_to_docx_def docx_document_run docx_layout_def control_policy_def
      placeholder_policy_def strict_docx_def xml_error_def xml_incompatible_def)

text \<open>
  C8, amended. For every record, the Word export makes these calls in order: a level-0
  heading with the record's title; the paragraphs "Organization: ...", "Framework: ..."
  and "Generated by: ..."; a page break; and then for each section a level-1 heading with
  its title, a paragraph with its content and a page break. If the library accepts them
  all, the writer is given exactly this sequence, and a save that returns is logged; an
  exception of the writer is passed on. If the library refuses one, the export raises the
  exception of the first refused call, and nothing is saved or logged.
\<close>

theorem export_to_docx_layout:
  "export_to_docx lib save policy output_path s =
     (let layout =
        [AddHeading (policy_title policy) 0,
         AddParagraph (''Organization: '' @ organization (metadata policy)),
         AddParagraph (''Framework: '' @ policy_framework policy),
         AddParagraph (''Generated by: '' @ generated_by (metadata policy)),
         AddPageBreak]
        @ concat (map (\<lambda>sec. [AddHeading (title sec) 1, AddParagraph (content sec), AddPageBreak])
                    (sections policy))
      in case first_refusal lib [] layout of
           Some e \<Rightarrow> (Inl e, s)
         | None \<Rightarrow>
             (case save (world s) layout output_path of
                (Inl e, w') \<Rightarrow> (Inl e, s\<lparr>world := w'\<rparr>)
              | (Inr u, w') \<Rightarrow>
                  (Inr (), s\<lparr>world := w',
                             log_events := log_events s
                               @ [LogEvent Info ''Exported to DOCX'' [(''file'', output_path)]]\<rparr>)))"
proof -
  have "export_to_docx lib save policy output_path s =
     (case first_refusal lib [] (docx_layout policy) of
           Some e \<Rightarrow> (Inl e, s)
         | None \<Rightarrow>
             (case save (world s) (docx_layout policy) output_path of
                (Inl e, w') \<Rightarrow> (Inl e, s\<lparr>world := w'\<rparr>)
              | (Inr u, w') \<Rightarrow>
                  (Inr (), s\<lparr>world := w',
                             log_events := log_events s
                               @ [LogEvent Info ''Exported to DOCX'' [(''file'', output_path)]]\<rparr>)))"
    by (simp add: export_to_docx_def docx_document_run logger_info_def
        split: option.splits prod.splits sum.splits)
  then show ?thesis
    unfolding docx_layout_def Let_def .
qed

theorem export_to_docx_layout_witness:
  "export_to_docx strict_docx recording_save placeholder_policy ''policy.docx''
       \<lparr>world = [], log_events = []\<rparr>
     = (Inr (),
        \<lparr>world = [(''policy.docx'',
            [AddHeading ''RGPD Security Policy - Acme'' 0,
             AddParagraph ''Organization: Acme'',
             AddParagraph ''Framework: RGPD'',
             AddParagraph ''Generated by: Ayi NEDJIMI - ayinedjimi-consultants.fr'',
             AddPageBreak,
             AddHeading ''Data Protection Principles'' 1,
             AddParagraph ''[Section content for Data Protection Principles]'',
             AddPageBreak,
             AddHeading ''Lawful Basis for Processing'' 1,
             AddParagraph ''Lawful basis text'',
             AddPageBreak])],
         log_events = [LogEvent Info ''Exported to DOCX'' [(''file'', ''policy.docx'')]]\<rparr>)"
  using export_to_docx_layout [of strict_docx recording_save placeholder_policy "''policy.docx''"
      "\<lparr>world = [], log_events = []\<rparr>"]
  by (simp add: placeholder_policy_def strict_docx_def xml_error_def xml_incompatible_def
      recording_save_def)

end
